theory Spec2Isabelle
  imports Complex_Main
begin

section \<open>Values of the host language\<close>

text \<open>
  The simulator is one JavaScript module, \<^verbatim>\<open>src/App.jsx\<close>. Strings are lists of
  characters; every character of the source's literals is a code unit below 256, so one
  \<^typ>\<open>char\<close> stands for one code unit. A value that is a string or \<^verbatim>\<open>null\<close> (what
  \<^verbatim>\<open>URLSearchParams.get\<close> returns) is a \<^typ>\<open>string option\<close>, \<^term>\<open>None\<close> being
  \<^verbatim>\<open>null\<close>. Counters and the attempt budget are exact integers; the source's numbers
  are doubles, which represent the counters and the products \<^verbatim>\<open>Math.pow(2, k) * 500\<close>
  exactly for every \<open>k\<close> up to 1015.
\<close>

type_synonym js_string = "string option"

text \<open>\<^verbatim>\<open>v || d\<close> on a string or \<^verbatim>\<open>null\<close>: \<^verbatim>\<open>null\<close> and the empty string are falsy.\<close>

definition js_or :: "js_string \<Rightarrow> string \<Rightarrow> string" where
  "js_or v d = (case v of None \<Rightarrow> d | Some s \<Rightarrow> if s = [] then d else s)"

text \<open>\<^verbatim>\<open>s.startsWith(p)\<close>.\<close>

definition startsWith :: "string \<Rightarrow> string \<Rightarrow> bool" where
  "startsWith s p = (take (length p) s = p)"

text \<open>
  What a \<^verbatim>\<open>throw\<close> can carry in this module: the initial \<^verbatim>\<open>null\<close> of
  \<^verbatim>\<open>lastErr\<close>, a plain \<^verbatim>\<open>new Error(message)\<close>, the \<^verbatim>\<open>TypeError\<close> of a method
  call on \<^verbatim>\<open>null\<close>, and whatever value the HTTP client rejected with.
\<close>

datatype 'e thrown = Null | Error string | TypeError | Rejection 'e

section \<open>The HTTP client and the observable effects\<close>

text \<open>
  \<^verbatim>\<open>axios.post(url, payload, {headers: {...}, timeout: 10000})\<close> is recorded as a request:
  the method, the three arguments as the source passes them.
\<close>

datatype http_method = POST

record 'p request =
  http_method :: http_method
  url :: string
  body :: 'p
  headers :: "(string \<times> js_string) list"
  timeout :: nat

text \<open>
  An awaited call either resolves with a response, of which the source reads only
  \<^verbatim>\<open>res.data\<close>, or rejects with an error value.
\<close>

datatype ('a, 'e) settled = Resolved 'a | Rejected 'e

text \<open>
  The network is a parameter: \<open>net k r\<close> is how the \<open>k\<close>-th call (counted from 0) of
  one delivery settles when it sends \<open>r\<close>.
\<close>

type_synonym ('p, 'a, 'e) network = "nat \<Rightarrow> 'p request \<Rightarrow> ('a, 'e) settled"

text \<open>
  The effects of a delivery, in the order they happen: a network call, or a suspension of
  \<^verbatim>\<open>setTimeout(r, delay)\<close> for \<open>delay\<close> milliseconds.
\<close>

datatype 'p effect = Call "'p request" | Wait nat

fun calls :: "'p effect list \<Rightarrow> 'p request list" where
  "calls [] = []"
| "calls (Call r # es) = r # calls es"
| "calls (Wait d # es) = calls es"

fun waits :: "'p effect list \<Rightarrow> nat list" where
  "waits [] = []"
| "waits (Call r # es) = waits es"
| "waits (Wait d # es) = d # waits es"

section \<open>sendWithRetry\<close>

text \<open>The request every iteration of the loop builds (lines 23 to 29).\<close>

definition post_request :: "string \<Rightarrow> 'p \<Rightarrow> js_string \<Rightarrow> 'p request" where
  "post_request u payload apiKey =
     \<lparr>http_method = POST, url = u, body = payload,
      headers = [(''Content-Type'', Some ''application/json''), (''x-api-key'', apiKey)],
      timeout = 10000\<rparr>"

text \<open>\<^verbatim>\<open>Math.pow(2, attempt) * 500\<close>, with \<open>attempt\<close> already incremented.\<close>

definition backoff_delay :: "nat \<Rightarrow> nat" where
  "backoff_delay attempt = 2 ^ attempt * 500"

text \<open>
  The \<^verbatim>\<open>while (attempt < maxAttempts)\<close> loop, from the state \<open>(attempt, lastErr)\<close>. The
  result is the effects performed from that state on, and how the function ends:
  \<^term>\<open>Inr\<close> the returned \<^verbatim>\<open>res.data\<close>, or \<^term>\<open>Inl\<close> the thrown \<^verbatim>\<open>lastErr\<close>.
  Each failure increments \<open>attempt\<close> and then waits; \<open>attempt\<close> is therefore also the
  number of calls made so far. The default of \<open>maxAttempts\<close>, 3, stands for an omitted
  argument; the one caller passes 3 itself.
\<close>

function retry_loop ::
  "('p, 'a, 'e) network \<Rightarrow> string \<Rightarrow> 'p \<Rightarrow> js_string \<Rightarrow> int \<Rightarrow> nat \<Rightarrow> 'e thrown
     \<Rightarrow> 'p effect list \<times> ('e thrown + 'a)" where
  "retry_loop net u payload apiKey maxAttempts attempt lastErr =
     (if int attempt < maxAttempts then
        (case net attempt (post_request u payload apiKey) of
           Resolved res \<Rightarrow> ([Call (post_request u payload apiKey)], Inr res)
         | Rejected err \<Rightarrow>
             (case retry_loop net u payload apiKey maxAttempts (attempt + 1) (Rejection err) of
                (es, out) \<Rightarrow>
                  (Call (post_request u payload apiKey) # Wait (backoff_delay (attempt + 1)) # es,
                   out)))
      else ([], Inl lastErr))"
  by pat_completeness auto
termination
  by (relation "measure (\<lambda>(net, u, payload, apiKey, maxAttempts, attempt, lastErr).
        nat (maxAttempts - int attempt))") auto

declare retry_loop.simps [simp del]

definition sendWithRetry ::
  "('p, 'a, 'e) network \<Rightarrow> string \<Rightarrow> 'p \<Rightarrow> js_string \<Rightarrow> int
     \<Rightarrow> 'p effect list \<times> ('e thrown + 'a)" where
  "sendWithRetry net u payload apiKey maxAttempts =
     retry_loop net u payload apiKey maxAttempts 0 Null"

section \<open>Session parameters\<close>

text \<open>
  The object \<^verbatim>\<open>parseParams\<close> builds. The query string is given as the browser parsed
  it, a list of key and value pairs in order, and \<^verbatim>\<open>p.get(k)\<close> is the first value
  under \<open>k\<close>, or \<^verbatim>\<open>null\<close>.
\<close>

record session_params =
  session_id :: js_string
  learner_id :: js_string
  resource_id :: js_string
  api_key :: js_string
  callback_url :: js_string
  mode :: js_string

definition parseParams :: "(string \<times> string) list \<Rightarrow> session_params" where
  "parseParams p =
     \<lparr>session_id = map_of p ''session_id'',
      learner_id = map_of p ''learner_id'',
      resource_id = map_of p ''resource_id'',
      api_key = map_of p ''api_key'',
      callback_url = map_of p ''callback_url'',
      mode = Some (js_or (map_of p ''mode'') ''learning'')\<rparr>"

section \<open>The simulation tick\<close>

text \<open>An entry of the event log; \<open>meta\<close> is the \<^verbatim>\<open>{temperature: ...}\<close> object when present.\<close>

record event =
  ts :: string
  code :: string
  label :: string
  meta :: "int option"

record metric =
  code :: string
  label :: string
  "value" :: int
  unit :: string

text \<open>The state variables of the component that the timer and the delivery read.\<close>

record 'c app_state =
  sessionParams :: session_params
  running :: bool
  progress :: int
  targetTime :: real
  temperature :: real
  events :: "event list"
  metrics :: "metric list"
  competencies :: "'c list"

text \<open>\<^verbatim>\<open>Math.round\<close>: the nearest integer, a tie going up.\<close>

definition Math_round :: "real \<Rightarrow> int" where
  "Math_round x = \<lfloor>x + 1 / 2\<rfloor>"

text \<open>
  The updater of line 70, \<^verbatim>\<open>t => Math.max(100, Math.min(250, t + (Math.random()-0.5)*4))\<close>,
  with the value of \<^verbatim>\<open>Math.random()\<close> as \<open>rnd\<close>.
\<close>

definition drift :: "real \<Rightarrow> real \<Rightarrow> real" where
  "drift rnd t = max 100 (min 250 (t + (rnd - 0.5) * 4))"

text \<open>
  One run of the interval callback (lines 67 to 80). \<open>rnd1\<close> and \<open>rnd2\<close> are the two
  values of \<^verbatim>\<open>Math.random()\<close>, \<open>now\<close> is \<^verbatim>\<open>nowISO()\<close>; \<open>seen_temperature\<close> and
  \<open>seen_targetTime\<close> are the values the callback's closure captured when the timer
  was started.
\<close>

definition tick ::
  "real \<Rightarrow> real \<Rightarrow> real \<Rightarrow> real \<Rightarrow> string \<Rightarrow> 'c app_state \<Rightarrow> 'c app_state" where
  "tick seen_targetTime seen_temperature rnd1 rnd2 now s =
     (let np = progress s + 1 in
      s\<lparr>progress := np,
        temperature := drift rnd1 (temperature s),
        events :=
          (if rnd2 < 0.1
           then events s @ [\<lparr>ts = now, code = ''ACTION.PRESS'', label = ''Ajustement'',
                             meta = Some (Math_round seen_temperature)\<rparr>]
           else events s),
        running := (if seen_targetTime \<le> of_int np then False else running s)\<rparr>)"

section \<open>The result payload\<close>

record summary =
  score :: int
  status :: string
  grade :: string

record artifact =
  type :: string
  label :: string
  url :: string

record diagnostics =
  simulator_version :: string
  engine :: string
  user_agent :: string

record 'c payload =
  schema_version :: string
  session_id :: js_string
  resource_id :: string
  learner_id :: string
  mode :: string
  started_at :: string
  ended_at :: string
  summary :: summary
  metrics :: "metric list"
  events :: "event list"
  competencies :: "'c list"
  artifacts :: "artifact list"
  raw_logs :: "string list"
  diagnostics :: diagnostics

text \<open>
  What the host computes for one call of \<^verbatim>\<open>finishAndSend\<close> and the payload only
  carries: the two timestamps as \<^verbatim>\<open>toISOString()\<close> rendered them, the score of lines
  111 to 113 (floating-point arithmetic ended by \<^verbatim>\<open>Math.round\<close>), the base64 text of
  \<^verbatim>\<open>btoa(JSON.stringify({events, metrics}))\<close>, the decimal text of \<open>progress\<close> and
  \<^verbatim>\<open>navigator.userAgent\<close>.
\<close>

record host_values =
  startedAt_ISO :: string
  endedAt_ISO :: string
  rounded_score :: int
  session_log_base64 :: string
  progress_text :: string
  navigator_userAgent :: string

text \<open>The object literal of lines 115 to 145.\<close>

definition build_payload :: "host_values \<Rightarrow> 'c app_state \<Rightarrow> 'c payload" where
  "build_payload h s =
     \<lparr>schema_version = ''1.0.0'',
      session_id = session_params.session_id (sessionParams s),
      resource_id = js_or (session_params.resource_id (sessionParams s)) ''resource-unknown'',
      learner_id = js_or (session_params.learner_id (sessionParams s)) ''learner-unknown'',
      mode = js_or (session_params.mode (sessionParams s)) ''learning'',
      started_at = startedAt_ISO h,
      ended_at = endedAt_ISO h,
      summary =
        \<lparr>score = rounded_score h,
         status = ''completed'',
         grade = (if 85 \<le> rounded_score h then ''A''
                  else (if 70 \<le> rounded_score h then ''B'' else ''C''))\<rparr>,
      metrics =
        [\<lparr>code = ''TIME_TOTAL'', label = ''Temps total'', value = progress s, unit = ''s''\<rparr>,
         \<lparr>code = ''PEAK_TEMP'', label = ''Temp'' @ [CHR 0xE9] @ ''rature finale (C)'',
          value = Math_round (temperature s), unit = [CHR 0xB0] @ ''C''\<rparr>],
      events = app_state.events s,
      competencies = app_state.competencies s,
      artifacts =
        [\<lparr>type = ''file'', label = ''Session log (inline)'',
          url = ''data:application/json;base64,'' @ session_log_base64 h\<rparr>],
      raw_logs =
        [''Simulation g'' @ [CHR 0xE9] @ ''n'' @ [CHR 0xE9] @ ''r'' @ [CHR 0xE9]
           @ ''e localement. progress='' @ progress_text h],
      diagnostics =
        \<lparr>simulator_version = ''1.0.0'', engine = ''react-vite'',
         user_agent = navigator_userAgent h\<rparr>\<rparr>"

section \<open>finishAndSend\<close>

text \<open>The message of the \<^verbatim>\<open>Error\<close> thrown at line 150.\<close>

definition https_required :: string where
  "https_required = ''callback_url doit '' @ [CHR 0xEA] @ ''tre en HTTPS''"

text \<open>
  The \<^verbatim>\<open>try\<close> block of lines 148 to 153: the effects it performs and how it ends,
  \<^term>\<open>Inr\<close> the acknowledgment \<^verbatim>\<open>res\<close> or \<^term>\<open>Inl\<close> the value the \<^verbatim>\<open>catch\<close>
  clause receives. Calling \<^verbatim>\<open>startsWith\<close> on a \<^verbatim>\<open>null\<close> \<open>callback_url\<close> throws a
  \<^verbatim>\<open>TypeError\<close>. The texts handed to \<^verbatim>\<open>setMessage\<close> and \<^verbatim>\<open>console.error\<close> are not
  part of the model.
\<close>

definition finishAndSend ::
  "('c payload, 'a, 'e) network \<Rightarrow> host_values \<Rightarrow> 'c app_state
     \<Rightarrow> 'c payload effect list \<times> ('e thrown + 'a)" where
  "finishAndSend net h s =
     (case session_params.callback_url (sessionParams s) of
        None \<Rightarrow> ([], Inl TypeError)
      | Some u \<Rightarrow>
          if \<not> startsWith u ''https://'' then ([], Inl (Error https_required))
          else sendWithRetry net u (build_payload h s)
                 (session_params.api_key (sessionParams s)) 3)"

section \<open>Concrete inputs\<close>

text \<open>
  Networks and component states at which the statements below are evaluated: a network
  that rejects the \<open>k\<close>-th call with the error \<open>k\<close>, one that accepts every call, the
  values of the host for a given score, and the state of a finished run whose session
  parameters were parsed from a given query.
\<close>

definition rejecting :: "('p, string, nat) network" where
  "rejecting k r = Rejected k"

definition accepting :: "('p, string, nat) network" where
  "accepting k r = Resolved ''stored''"

definition example_host :: "int \<Rightarrow> host_values" where
  "example_host sc =
     \<lparr>startedAt_ISO = ''2025-01-01T10:00:00.000Z'', endedAt_ISO = ''2025-01-01T10:05:00.000Z'',
      rounded_score = sc, session_log_base64 = ''e30='', progress_text = ''300'',
      navigator_userAgent = ''agent''\<rparr>"

definition example_state :: "(string \<times> string) list \<Rightarrow> unit app_state" where
  "example_state query =
     \<lparr>sessionParams = parseParams query, running = False, progress = 300, targetTime = 300,
      temperature = 200, events = [], metrics = [], competencies = []\<rparr>"

section \<open>The retry loop, from any state\<close>

text \<open>Every call the loop makes sends the one request built from its arguments.\<close>

lemma retry_loop_calls:
  "r \<in> set (calls (fst (retry_loop net u p k n a le))) \<Longrightarrow> r = post_request u p k"
proof (induction net u p k n a le rule: retry_loop.induct)
  case (1 net u p k n a le)
  from "1.prems" "1.IH" show ?case
    by (subst (asm) retry_loop.simps) (auto split: if_splits settled.splits prod.splits)
qed

text \<open>
  When every remaining attempt is rejected, the loop alternates a call and a wait until
  the budget is used up; the wait after the \<open>i\<close>-th failure lasts \<open>2 ^ i * 500\<close> ms.
\<close>

lemma retry_loop_all_rejected:
  "(\<forall>j. a \<le> j \<and> int j < n \<longrightarrow> (\<exists>e. net j (post_request u p k) = Rejected e)) \<Longrightarrow>
   fst (retry_loop net u p k n a le) =
     concat (map (\<lambda>i. [Call (post_request u p k), Wait (2 ^ i * 500)]) [Suc a..<Suc (nat n)])"
proof (induction net u p k n a le rule: retry_loop.induct)
  case (1 net u p k n a le)
  show ?case
  proof (cases "int a < n")
    case False
    then have "[Suc a..<Suc (nat n)] = []" by simp
    with False show ?thesis by (subst retry_loop.simps) simp
  next
    case True
    with "1.prems" obtain e where e: "net a (post_request u p k) = Rejected e" by blast
    have rest: "fst (retry_loop net u p k n (a + 1) (Rejection e)) =
        concat (map (\<lambda>i. [Call (post_request u p k), Wait (2 ^ i * 500)])
                 [Suc (a + 1)..<Suc (nat n)])"
      using "1.IH" [OF True e] "1.prems" by simp
    from True have "Suc a < Suc (nat n)" by linarith
    then have "[Suc a..<Suc (nat n)] = Suc a # [Suc (a + 1)..<Suc (nat n)]"
      by (simp add: upt_conv_Cons)
    with True e rest show ?thesis
      by (subst retry_loop.simps) (simp add: backoff_delay_def case_prod_beta)
  qed
qed

text \<open>
  What the loop throws is the \<open>lastErr\<close> it was entered with, when no attempt is left, and
  otherwise the rejection of the last attempt of the budget.
\<close>

lemma retry_loop_thrown:
  "snd (retry_loop net u p k n a le) = Inl x \<Longrightarrow>
   (n \<le> int a \<and> x = le) \<or>
   (int a < n \<and> (\<exists>e. x = Rejection e \<and> net (nat n - 1) (post_request u p k) = Rejected e))"
proof (induction net u p k n a le arbitrary: x rule: retry_loop.induct)
  case (1 net u p k n a le)
  show ?case
  proof (cases "int a < n")
    case False
    with "1.prems" show ?thesis by (subst (asm) retry_loop.simps) simp
  next
    case True
    show ?thesis
    proof (cases "net a (post_request u p k)")
      case (Resolved res)
      with True "1.prems" show ?thesis by (subst (asm) retry_loop.simps) simp
    next
      case (Rejected e)
      with True "1.prems" have "snd (retry_loop net u p k n (a + 1) (Rejection e)) = Inl x"
        by (subst (asm) retry_loop.simps) (simp add: case_prod_beta)
      from "1.IH" [OF True Rejected this]
      show ?thesis
      proof
        assume "n \<le> int (a + 1) \<and> x = Rejection e"
        with True have "nat n - 1 = a" "x = Rejection e" by auto
        with True Rejected show ?thesis by simp
      next
        assume "int (a + 1) < n \<and>
          (\<exists>e. x = Rejection e \<and> net (nat n - 1) (post_request u p k) = Rejected e)"
        with True show ?thesis by simp
      qed
    qed
  qed
qed

text \<open>When every remaining attempt is rejected, the loop ends by throwing.\<close>

lemma retry_loop_all_rejected_throws:
  "int a < n \<Longrightarrow>
   (\<forall>j. a \<le> j \<and> int j < n \<longrightarrow> (\<exists>e. net j (post_request u p k) = Rejected e)) \<Longrightarrow>
   \<exists>x. snd (retry_loop net u p k n a le) = Inl x"
proof (induction net u p k n a le rule: retry_loop.induct)
  case (1 net u p k n a le)
  from "1.prems" obtain e where e: "net a (post_request u p k) = Rejected e" by blast
  show ?case
  proof (cases "int (a + 1) < n")
    case True
    from "1.IH" [OF "1.prems"(1) e True] "1.prems"(2)
    obtain x where "snd (retry_loop net u p k n (a + 1) (Rejection e)) = Inl x" by auto
    with "1.prems"(1) e show ?thesis
      by (subst retry_loop.simps) (simp add: case_prod_beta)
  next
    case False
    then have "retry_loop net u p k n (a + 1) (Rejection e) = ([], Inl (Rejection e))"
      by (subst retry_loop.simps) simp
    with "1.prems"(1) e show ?thesis
      by (subst retry_loop.simps) simp
  qed
qed

text \<open>\<^const>\<open>startsWith\<close> holds exactly of the strings that extend the prefix.\<close>

lemma startsWith_iff: "startsWith s p \<longleftrightarrow> (\<exists>rest. s = p @ rest)"
  unfolding startsWith_def
  by (metis append_eq_conv_conj append_take_drop_id)

section \<open>Delivery under permanent failure\<close>

text \<open>
  C1, as the code has it. For every \<open>maxAttempts = n \<ge> 1\<close>, when every network attempt
  is rejected, \<^verbatim>\<open>sendWithRetry\<close> makes exactly \<open>n\<close> network calls and performs exactly
  \<open>n\<close> waits, one after each rejected call, the last one included; their durations are
  \<open>2^1*500, 2^2*500, ..., 2^n*500\<close> milliseconds in that order. The loop has no test of
  whether an attempt remains before it waits.
\<close>

theorem sendWithRetry_permanent_failure:
  assumes "1 \<le> n"
    and "\<forall>j<nat n. \<exists>e. net j (post_request u payload apiKey) = Rejected e"
  shows "fst (sendWithRetry net u payload apiKey n) =
           concat (map (\<lambda>i. [Call (post_request u payload apiKey), Wait (2 ^ i * 500)])
                    [1..<Suc (nat n)])
         \<and> length (calls (fst (sendWithRetry net u payload apiKey n))) = nat n
         \<and> waits (fst (sendWithRetry net u payload apiKey n)) =
             map (\<lambda>i. 2 ^ i * 500) [1..<Suc (nat n)]"
proof -
  let ?step = "\<lambda>i. [Call (post_request u payload apiKey), Wait (2 ^ i * 500)]"
  from assms(2) have "\<forall>j. 0 \<le> j \<and> int j < n \<longrightarrow>
      (\<exists>e. net j (post_request u payload apiKey) = Rejected e)"
    by (simp add: nat_less_iff)
  then have eff: "fst (sendWithRetry net u payload apiKey n) =
      concat (map ?step [1..<Suc (nat n)])"
    unfolding sendWithRetry_def by (simp add: retry_loop_all_rejected)
  have c: "calls (concat (map ?step is)) = replicate (length is) (post_request u payload apiKey)"
    for "is" by (induction "is") simp_all
  have w: "waits (concat (map ?step is)) = map (\<lambda>i. 2 ^ i * 500) is"
    for "is" by (induction "is") simp_all
  from eff show ?thesis by (simp only: c w) simp
qed

theorem sendWithRetry_permanent_failure_witness:
  "sendWithRetry rejecting ''https://cb.example/x'' ''payload'' (Some ''key123'') 3 =
     ([Call (post_request ''https://cb.example/x'' ''payload'' (Some ''key123'')), Wait 1000,
       Call (post_request ''https://cb.example/x'' ''payload'' (Some ''key123'')), Wait 2000,
       Call (post_request ''https://cb.example/x'' ''payload'' (Some ''key123'')), Wait 4000],
      Inl (Rejection 2))
   \<and> length (calls (fst (sendWithRetry rejecting ''https://cb.example/x'' ''payload''
         (Some ''key123'') 3))) = 3
   \<and> waits (fst (sendWithRetry rejecting ''https://cb.example/x'' ''payload''
         (Some ''key123'') 3)) = [1000, 2000, 4000]"
proof -
  have h1: "(1::int) \<le> 3" by simp
  have h2: "\<forall>j<nat 3. \<exists>e. rejecting j
      (post_request ''https://cb.example/x'' ''payload'' (Some ''key123'')) = Rejected e"
    by (simp add: rejecting_def)
  have ev: "sendWithRetry rejecting ''https://cb.example/x'' ''payload'' (Some ''key123'') 3 =
     ([Call (post_request ''https://cb.example/x'' ''payload'' (Some ''key123'')), Wait 1000,
       Call (post_request ''https://cb.example/x'' ''payload'' (Some ''key123'')), Wait 2000,
       Call (post_request ''https://cb.example/x'' ''payload'' (Some ''key123'')), Wait 4000],
      Inl (Rejection 2))"
    by (simp add: sendWithRetry_def retry_loop.simps rejecting_def backoff_delay_def)
  from sendWithRetry_permanent_failure [where n = 3 and net = rejecting
      and u = "''https://cb.example/x''" and payload = "''payload''"
      and apiKey = "Some ''key123''", OF h1 h2] ev
  show ?thesis
    by (simp add: upt_rec)
qed

text \<open>
  With a budget of 3 and three rejections the waits are 1000, 2000 and 4000 ms: three
  waits, not the two (\<open>2^1*500\<close>, \<open>2^2*500\<close>) of \<open>n - 1\<close> intervening waits.
\<close>

theorem sendWithRetry_waits_after_last_failure:
  "waits (fst (sendWithRetry rejecting ''https://cb.example/x'' ''payload''
      (Some ''key123'') 3)) = [1000, 2000, 4000]
   \<and> waits (fst (sendWithRetry rejecting ''https://cb.example/x'' ''payload''
      (Some ''key123'') 3)) \<noteq> [2 ^ 1 * 500, 2 ^ 2 * 500]"
  by (simp add: sendWithRetry_def retry_loop.simps rejecting_def backoff_delay_def)

section \<open>The insecure endpoint\<close>

text \<open>
  C2. Whatever the payload (the state and the host values it is built from), the
  credential and the network, if the endpoint URL is a string that does not begin with
  \<^verbatim>\<open>https://\<close>, the delivery of \<^verbatim>\<open>finishAndSend\<close> fails at once with the configuration
  error of line 150, an \<^verbatim>\<open>Error\<close> saying that the callback URL must be HTTPS; no network
  call is made and no wait happens, so nothing is retried.
\<close>

theorem finishAndSend_insecure_endpoint:
  "session_params.callback_url (sessionParams s) = Some u \<Longrightarrow>
   (\<nexists>rest. u = ''https://'' @ rest) \<Longrightarrow>
   finishAndSend net h s = ([], Inl (Error https_required))"
  by (simp add: finishAndSend_def startsWith_iff)

theorem finishAndSend_insecure_endpoint_witness:
  "finishAndSend accepting (example_host 90)
     (example_state [(''session_id'', ''s1''), (''api_key'', ''key123''),
        (''callback_url'', ''http://insecure.example'')])
   = ([], Inl (Error https_required))"
proof -
  let ?s = "example_state [(''session_id'', ''s1''), (''api_key'', ''key123''),
        (''callback_url'', ''http://insecure.example'')]"
  have h1: "session_params.callback_url (sessionParams ?s) = Some ''http://insecure.example''"
    by (simp add: example_state_def parseParams_def)
  have h2: "\<nexists>rest. ''http://insecure.example'' = ''https://'' @ rest"
    by simp
  from finishAndSend_insecure_endpoint [where net = accepting and h = "example_host 90", OF h1 h2]
  show ?thesis .
qed

section \<open>What crosses the boundary of the delivery\<close>

text \<open>
  C3. For every budget \<open>maxAttempts = n \<ge> 1\<close>, if all \<open>n\<close> network attempts fail,
  \<^verbatim>\<open>sendWithRetry\<close> surfaces the terminal delivery error, which carries the cause of the
  last observed failure: it throws the rejection of the \<open>n\<close>-th attempt. Nothing else
  crosses the boundary: whatever \<^verbatim>\<open>sendWithRetry\<close> throws is the rejection of its last
  attempt, and whatever the delivery of \<^verbatim>\<open>finishAndSend\<close> ends with as a failure, for an
  endpoint URL that is a string, is either the configuration error raised before any
  effect or the rejection of the third and last attempt.
\<close>

theorem sendWithRetry_throws_last_rejection:
  assumes "1 \<le> n"
  shows "((\<forall>j<nat n. net j (post_request u payload apiKey) = Rejected (err j))
      \<longrightarrow> snd (sendWithRetry net u payload apiKey n) = Inl (Rejection (err (nat n - 1))))
   \<and> (\<forall>x. snd (sendWithRetry net u payload apiKey n) = Inl x \<longrightarrow>
         (\<exists>e. x = Rejection e
              \<and> net (nat n - 1) (post_request u payload apiKey) = Rejected e))
   \<and> (\<forall>nt s h w y. session_params.callback_url (sessionParams s) = Some w
         \<and> snd (finishAndSend nt h s) = Inl y \<longrightarrow>
         (y = Error https_required \<and> fst (finishAndSend nt h s) = [])
         \<or> (\<exists>e. y = Rejection e
              \<and> nt 2 (post_request w (build_payload h s)
                         (session_params.api_key (sessionParams s))) = Rejected e))"
proof (intro conjI impI allI)
  fix x
  assume "snd (sendWithRetry net u payload apiKey n) = Inl x"
  then have "snd (retry_loop net u payload apiKey n 0 Null) = Inl x"
    by (simp add: sendWithRetry_def)
  from retry_loop_thrown [OF this] assms
  show "\<exists>e. x = Rejection e \<and> net (nat n - 1) (post_request u payload apiKey) = Rejected e"
    by auto
next
  assume a: "\<forall>j<nat n. net j (post_request u payload apiKey) = Rejected (err j)"
  from assms have pos: "int 0 < n" by simp
  from a have all: "\<forall>j. 0 \<le> j \<and> int j < n \<longrightarrow>
      (\<exists>e. net j (post_request u payload apiKey) = Rejected e)"
    by (simp add: nat_less_iff)
  from retry_loop_all_rejected_throws [where net = net and le = Null, OF pos all]
  obtain x where x: "snd (retry_loop net u payload apiKey n 0 Null) = Inl x" by blast
  from retry_loop_thrown [OF x] pos obtain e where
    e: "x = Rejection e" "net (nat n - 1) (post_request u payload apiKey) = Rejected e"
    by auto
  from assms have "nat n - 1 < nat n" by simp
  with a have "net (nat n - 1) (post_request u payload apiKey) = Rejected (err (nat n - 1))"
    by blast
  with e have "x = Rejection (err (nat n - 1))" by simp
  with x show "snd (sendWithRetry net u payload apiKey n) = Inl (Rejection (err (nat n - 1)))"
    by (simp add: sendWithRetry_def)
next
  fix nt s h w y
  assume b: "session_params.callback_url (sessionParams s) = Some w
         \<and> snd (finishAndSend nt h s) = Inl y"
  show "(y = Error https_required \<and> fst (finishAndSend nt h s) = [])
         \<or> (\<exists>e. y = Rejection e
              \<and> nt 2 (post_request w (build_payload h s)
                         (session_params.api_key (sessionParams s))) = Rejected e)"
  proof (cases "startsWith w ''https://''")
    case False
    with b show ?thesis by (auto simp: finishAndSend_def)
  next
    case True
    with b have "snd (retry_loop nt w (build_payload h s)
        (session_params.api_key (sessionParams s)) 3 0 Null) = Inl y"
      by (auto simp: finishAndSend_def sendWithRetry_def)
    from retry_loop_thrown [OF this] show ?thesis by auto
  qed
qed


theorem sendWithRetry_throws_last_rejection_witness:
  "snd (sendWithRetry rejecting ''https://cb.example/x'' ''payload'' (Some ''key123'') 3)
     = Inl (Rejection 2)
   \<and> rejecting 2 (post_request ''https://cb.example/x'' ''payload'' (Some ''key123''))
     = (Rejected 2 :: (string, nat) settled)
   \<and> snd (finishAndSend rejecting (example_host 90)
        (example_state [(''session_id'', ''s1''), (''api_key'', ''key123''),
           (''callback_url'', ''https://cb.example/x'')])) = Inl (Rejection 2)
   \<and> finishAndSend rejecting (example_host 90)
        (example_state [(''session_id'', ''s1''), (''api_key'', ''key123''),
           (''callback_url'', ''http://insecure.example'')]) = ([], Inl (Error https_required))"
proof -
  let ?s = "example_state [(''session_id'', ''s1''), (''api_key'', ''key123''),
           (''callback_url'', ''https://cb.example/x'')]"
  let ?t = "example_state [(''session_id'', ''s1''), (''api_key'', ''key123''),
           (''callback_url'', ''http://insecure.example'')]"
  have h1: "(1::int) \<le> 3" by simp
  have h2: "\<forall>j<nat 3. rejecting j
      (post_request ''https://cb.example/x'' ''payload'' (Some ''key123''))
        = (Rejected (id j) :: (string, nat) settled)"
    by (simp add: rejecting_def)
  note inst = sendWithRetry_throws_last_rejection [where n = 3 and net = rejecting and err = id
      and u = "''https://cb.example/x''" and payload = "''payload''"
      and apiKey = "Some ''key123''", OF h1]
  from inst [THEN conjunct1, THEN mp, OF h2]
  have a: "snd (sendWithRetry rejecting ''https://cb.example/x'' ''payload''
      (Some ''key123'') 3) = Inl (Rejection 2)"
    by simp
  have b: "rejecting 2 (post_request ''https://cb.example/x'' ''payload'' (Some ''key123''))
     = (Rejected 2 :: (string, nat) settled)"
    by (simp add: rejecting_def)
  have c: "snd (finishAndSend rejecting (example_host 90) ?s) = Inl (Rejection 2)"
    by (simp add: finishAndSend_def startsWith_def example_state_def parseParams_def
        sendWithRetry_def retry_loop.simps rejecting_def)
  have d: "finishAndSend rejecting (example_host 90) ?t = ([], Inl (Error https_required))"
    by (simp add: finishAndSend_def startsWith_def example_state_def parseParams_def)
  from a b c d show ?thesis by simp
qed

section \<open>Success at the first attempt\<close>

text \<open>
  C4. For every payload and credential, if the first network attempt succeeds (there is
  one exactly when the budget is at least 1), \<^verbatim>\<open>sendWithRetry\<close> makes exactly one network
  call, performs no wait, and returns the acknowledgment at once; no further attempt is
  made.
\<close>

theorem sendWithRetry_first_attempt_succeeds:
  "1 \<le> n \<Longrightarrow> net 0 (post_request u payload apiKey) = Resolved ack \<Longrightarrow>
   sendWithRetry net u payload apiKey n = ([Call (post_request u payload apiKey)], Inr ack)"
  by (simp add: sendWithRetry_def retry_loop.simps)

theorem sendWithRetry_first_attempt_succeeds_witness:
  "sendWithRetry accepting ''https://cb.example/x'' ''payload'' (Some ''key123'') 3 =
     ([Call (post_request ''https://cb.example/x'' ''payload'' (Some ''key123''))], Inr ''stored'')
   \<and> waits (fst (sendWithRetry accepting ''https://cb.example/x'' ''payload''
         (Some ''key123'') 3)) = []"
proof -
  have h1: "(1::int) \<le> 3" by simp
  have h2: "accepting 0 (post_request ''https://cb.example/x'' ''payload'' (Some ''key123''))
      = Resolved ''stored''"
    by (simp add: accepting_def)
  from sendWithRetry_first_attempt_succeeds [where n = 3 and net = accepting
      and u = "''https://cb.example/x''" and payload = "''payload''"
      and apiKey = "Some ''key123''" and ack = "''stored''", OF h1 h2]
  show ?thesis by simp
qed

section \<open>The grade\<close>

text \<open>
  C5. The grade of the payload's summary is a function of the integer score alone, with
  fixed thresholds: a score of at least 85 gives \<open>A\<close>, a score from 70 to 84 gives \<open>B\<close>,
  a score below 70 gives \<open>C\<close>.
\<close>

theorem build_payload_grade:
  "(85 \<le> rounded_score h \<longrightarrow> grade (payload.summary (build_payload h s)) = ''A'')
   \<and> (70 \<le> rounded_score h \<and> rounded_score h < 85 \<longrightarrow>
        grade (payload.summary (build_payload h s)) = ''B'')
   \<and> (rounded_score h < 70 \<longrightarrow> grade (payload.summary (build_payload h s)) = ''C'')"
  by (simp add: build_payload_def)

theorem build_payload_grade_witness:
  "grade (payload.summary (build_payload (example_host 85) (example_state []))) = ''A''
   \<and> grade (payload.summary (build_payload (example_host 84) (example_state []))) = ''B''
   \<and> grade (payload.summary (build_payload (example_host 70) (example_state []))) = ''B''
   \<and> grade (payload.summary (build_payload (example_host 69) (example_state []))) = ''C''
   \<and> grade (payload.summary (build_payload (example_host 100) (example_state []))) = ''A''
   \<and> grade (payload.summary (build_payload (example_host 0) (example_state []))) = ''C''"
  using build_payload_grade [of "example_host 85" "example_state []"]
    build_payload_grade [of "example_host 84" "example_state []"]
    build_payload_grade [of "example_host 70" "example_state []"]
    build_payload_grade [of "example_host 69" "example_state []"]
    build_payload_grade [of "example_host 100" "example_state []"]
    build_payload_grade [of "example_host 0" "example_state []"]
  by (simp add: example_host_def)

section \<open>The requests\<close>

text \<open>
  C6. Every network call \<^verbatim>\<open>sendWithRetry\<close> makes is an HTTP POST whose headers are
  \<^verbatim>\<open>Content-Type: application/json\<close> and \<^verbatim>\<open>x-api-key\<close> with the supplied credential,
  with a timeout of 10000 milliseconds.
\<close>

theorem sendWithRetry_request_shape:
  "\<forall>r \<in> set (calls (fst (sendWithRetry net u payload apiKey n))).
     http_method r = POST
     \<and> headers r = [(''Content-Type'', Some ''application/json''), (''x-api-key'', apiKey)]
     \<and> timeout r = 10000"
proof
  fix r assume "r \<in> set (calls (fst (sendWithRetry net u payload apiKey n)))"
  then have "r = post_request u payload apiKey"
    unfolding sendWithRetry_def by (rule retry_loop_calls)
  then show "http_method r = POST
     \<and> headers r = [(''Content-Type'', Some ''application/json''), (''x-api-key'', apiKey)]
     \<and> timeout r = 10000"
    by (simp add: post_request_def)
qed

theorem sendWithRetry_request_shape_witness:
  "length (calls (fst (sendWithRetry rejecting ''https://cb.example/x'' ''payload''
      (Some ''key123'') 3))) = 3
   \<and> http_method (calls (fst (sendWithRetry rejecting ''https://cb.example/x'' ''payload''
      (Some ''key123'') 3)) ! 2) = POST
   \<and> headers (calls (fst (sendWithRetry rejecting ''https://cb.example/x'' ''payload''
      (Some ''key123'') 3)) ! 2)
       = [(''Content-Type'', Some ''application/json''), (''x-api-key'', Some ''key123'')]
   \<and> timeout (calls (fst (sendWithRetry rejecting ''https://cb.example/x'' ''payload''
      (Some ''key123'') 3)) ! 2) = 10000"
proof -
  let ?cs = "calls (fst (sendWithRetry rejecting ''https://cb.example/x'' ''payload''
      (Some ''key123'') 3))"
  have len: "length ?cs = 3"
    by (simp add: sendWithRetry_def retry_loop.simps rejecting_def)
  then have "?cs ! 2 \<in> set ?cs" by simp
  with sendWithRetry_request_shape [of rejecting "''https://cb.example/x''" "''payload''"
      "Some ''key123''" 3] len
  show ?thesis by blast
qed

section \<open>The session identifiers of the payload\<close>

text \<open>
  C7, as the code has it. In the payload, \<open>learner_id\<close> and \<open>resource_id\<close> are the
  sentinels \<open>learner-unknown\<close> and \<open>resource-unknown\<close>, and \<open>mode\<close> is \<open>learning\<close>,
  when the session parameter is absent or is the empty string; when it is present and
  not empty, the value is copied unchanged.
\<close>

theorem build_payload_defaults:
  "(session_params.learner_id (sessionParams s) = None
      \<or> session_params.learner_id (sessionParams s) = Some []
      \<longrightarrow> payload.learner_id (build_payload h s) = ''learner-unknown'')
   \<and> (\<forall>v. session_params.learner_id (sessionParams s) = Some v \<and> v \<noteq> []
      \<longrightarrow> payload.learner_id (build_payload h s) = v)
   \<and> (session_params.resource_id (sessionParams s) = None
      \<or> session_params.resource_id (sessionParams s) = Some []
      \<longrightarrow> payload.resource_id (build_payload h s) = ''resource-unknown'')
   \<and> (\<forall>v. session_params.resource_id (sessionParams s) = Some v \<and> v \<noteq> []
      \<longrightarrow> payload.resource_id (build_payload h s) = v)
   \<and> (session_params.mode (sessionParams s) = None
      \<or> session_params.mode (sessionParams s) = Some []
      \<longrightarrow> payload.mode (build_payload h s) = ''learning'')
   \<and> (\<forall>v. session_params.mode (sessionParams s) = Some v \<and> v \<noteq> []
      \<longrightarrow> payload.mode (build_payload h s) = v)"
  by (auto simp: build_payload_def js_or_def)

theorem build_payload_defaults_witness:
  "payload.learner_id (build_payload (example_host 90)
      (example_state [(''resource_id'', [])])) = ''learner-unknown''
   \<and> payload.resource_id (build_payload (example_host 90)
      (example_state [(''resource_id'', [])])) = ''resource-unknown''
   \<and> payload.mode (build_payload (example_host 90)
      (example_state [(''resource_id'', [])]\<lparr>sessionParams :=
         (parseParams [])\<lparr>session_params.mode := None\<rparr>\<rparr>)) = ''learning''
   \<and> payload.learner_id (build_payload (example_host 90)
      (example_state [(''learner_id'', ''L42''), (''resource_id'', ''R7''),
         (''mode'', ''exam'')])) = ''L42''
   \<and> payload.resource_id (build_payload (example_host 90)
      (example_state [(''learner_id'', ''L42''), (''resource_id'', ''R7''),
         (''mode'', ''exam'')])) = ''R7''
   \<and> payload.mode (build_payload (example_host 90)
      (example_state [(''learner_id'', ''L42''), (''resource_id'', ''R7''),
         (''mode'', ''exam'')])) = ''exam''"
  using build_payload_defaults [of "example_state [(''resource_id'', [])]" "example_host 90"]
    build_payload_defaults [of "example_state [(''resource_id'', [])]\<lparr>sessionParams :=
         (parseParams [])\<lparr>session_params.mode := None\<rparr>\<rparr>" "example_host 90"]
    build_payload_defaults [of "example_state [(''learner_id'', ''L42''), (''resource_id'', ''R7''),
         (''mode'', ''exam'')]" "example_host 90"]
  by (simp add: example_state_def parseParams_def js_or_def)

text \<open>
  The query \<^verbatim>\<open>?session_id=s1&learner_id=\<close> has a \<open>learner_id\<close>, the empty string; the
  payload does not carry it but the sentinel.
\<close>

theorem build_payload_empty_learner_id_replaced:
  "session_params.learner_id (sessionParams
      (example_state [(''session_id'', ''s1''), (''learner_id'', [])])) = Some []
   \<and> payload.learner_id (build_payload (example_host 90)
      (example_state [(''session_id'', ''s1''), (''learner_id'', [])])) = ''learner-unknown''"
  by (simp add: example_state_def parseParams_def build_payload_def js_or_def)

section \<open>The payload and the credential across attempts\<close>

text \<open>
  C8. Across all attempts of one delivery the payload and the credential are used
  unchanged: every network call carries exactly the payload handed to \<^verbatim>\<open>sendWithRetry\<close>
  as its body, goes to the given URL, and has exactly the given credential under
  \<^verbatim>\<open>x-api-key\<close>.
\<close>

theorem sendWithRetry_same_payload_and_credential:
  "\<forall>r \<in> set (calls (fst (sendWithRetry net u payload apiKey n))).
     body r = payload \<and> request.url r = u \<and> map_of (headers r) ''x-api-key'' = Some apiKey"
proof
  fix r assume "r \<in> set (calls (fst (sendWithRetry net u payload apiKey n)))"
  then have "r = post_request u payload apiKey"
    unfolding sendWithRetry_def by (rule retry_loop_calls)
  then show "body r = payload \<and> request.url r = u
      \<and> map_of (headers r) ''x-api-key'' = Some apiKey"
    by (simp add: post_request_def)
qed

theorem sendWithRetry_same_payload_and_credential_witness:
  "map body (calls (fst (sendWithRetry rejecting ''https://cb.example/x'' ''payload''
      (Some ''key123'') 3))) = [''payload'', ''payload'', ''payload'']
   \<and> map (\<lambda>r. map_of (headers r) ''x-api-key'')
        (calls (fst (sendWithRetry rejecting ''https://cb.example/x'' ''payload''
          (Some ''key123'') 3)))
       = [Some (Some ''key123''), Some (Some ''key123''), Some (Some ''key123'')]"
proof -
  let ?cs = "calls (fst (sendWithRetry rejecting ''https://cb.example/x'' ''payload''
      (Some ''key123'') 3))"
  have len: "length ?cs = 3"
    by (simp add: sendWithRetry_def retry_loop.simps rejecting_def)
  then obtain a b c where abc: "?cs = [a, b, c]"
    by (auto simp: length_Suc_conv numeral_3_eq_3)
  with sendWithRetry_same_payload_and_credential [of rejecting "''https://cb.example/x''"
      "''payload''" "Some ''key123''" 3]
  show ?thesis by simp
qed

section \<open>A budget that is not positive\<close>

text \<open>
  C9. Called with \<open>maxAttempts \<le> 0\<close>, the loop body never runs: no network call and no
  wait happen, and the function throws the initial \<^verbatim>\<open>null\<close> of \<^verbatim>\<open>lastErr\<close>, which is
  no error object.
\<close>

theorem sendWithRetry_nonpositive_budget:
  "maxAttempts \<le> 0 \<Longrightarrow> sendWithRetry net u payload apiKey maxAttempts = ([], Inl Null)"
  by (simp add: sendWithRetry_def retry_loop.simps)

theorem sendWithRetry_nonpositive_budget_witness:
  "sendWithRetry accepting ''https://cb.example/x'' ''payload'' (Some ''key123'') (- 1)
     = ([], Inl Null)"
  using sendWithRetry_nonpositive_budget [of "- 1" accepting "''https://cb.example/x''"
      "''payload''" "Some ''key123''"]
  by simp

section \<open>The temperature\<close>

text \<open>
  C10. After every tick the temperature lies in the closed interval from 100 to 250,
  whatever it was before and whatever the random drift: the update clamps the new value
  between 100 and 250.
\<close>

theorem tick_temperature_in_range:
  "100 \<le> temperature (tick seen_targetTime seen_temperature rnd1 rnd2 now s)
   \<and> temperature (tick seen_targetTime seen_temperature rnd1 rnd2 now s) \<le> 250"
  by (simp add: tick_def drift_def Let_def)

end
